theory Spec2Isabelle
  imports Main "HOL-Library.AList"
begin

section \<open>Values, errors and dictionaries\<close>

text \<open>
  The module \<open>sdnist/utils.py\<close> works on pandas data frames whose cells are
  numbers or strings, on numpy arrays of bin edges, and on JSON-like dictionaries
  (the schema and the bin specification).

  Numbers: a finite number is an integer (\<open>Fin\<close>); the float specials
  \<open>-inf\<close>, \<open>+inf\<close> and \<open>nan\<close> are constructors of their own. Python
  compares \<open>30\<close> and \<open>30.0\<close> equal, and so does the model: an integer and the
  float of the same value are one \<open>Fin\<close>. Fractional floats and integers beyond
  the 64 bits of a numpy integer are outside the model. A float64 holds every
  integer of magnitude up to \<open>2^53\<close> exactly and rounds the larger ones; where
  \<open>create_bins\<close> stores integers in a float64 array, the model rounds them
  (\<open>to_float64\<close>).

  Every exception the code can raise is a value of \<open>error\<close>; a function that
  can raise returns \<open>error + 'a\<close>.
\<close>

datatype error = KeyError | ValueError | IndexError | TypeError | ZeroDivisionError

datatype num = NegInf | Fin int | PosInf | NaN

datatype val = Num num | Str string

fun bindE :: "error + 'a \<Rightarrow> ('a \<Rightarrow> error + 'b) \<Rightarrow> error + 'b" where
  "bindE (Inl e) f = Inl e"
| "bindE (Inr x) f = f x"

text \<open>An elementwise operation on a column raises as soon as one element does.\<close>

fun mapE :: "('a \<Rightarrow> error + 'b) \<Rightarrow> 'a list \<Rightarrow> error + 'b list" where
  "mapE f [] = Inr []"
| "mapE f (x # xs) =
     (case f x of Inl e \<Rightarrow> Inl e
      | Inr y \<Rightarrow> (case mapE f xs of Inl e \<Rightarrow> Inl e | Inr ys \<Rightarrow> Inr (y # ys)))"

text \<open>\<open>d['k']\<close> on a dictionary: KeyError when the key is absent.\<close>

definition getkey :: "'a option \<Rightarrow> error + 'a" where
  "getkey v = (case v of None \<Rightarrow> Inl KeyError | Some x \<Rightarrow> Inr x)"

text \<open>Float comparison and addition; every comparison with \<open>nan\<close> is false.\<close>

fun num_lt :: "num \<Rightarrow> num \<Rightarrow> bool" where
  "num_lt (Fin a) (Fin b) = (a < b)"
| "num_lt NegInf (Fin b) = True"
| "num_lt NegInf PosInf = True"
| "num_lt (Fin a) PosInf = True"
| "num_lt _ _ = False"

fun num_le :: "num \<Rightarrow> num \<Rightarrow> bool" where
  "num_le (Fin a) (Fin b) = (a \<le> b)"
| "num_le NegInf (Fin b) = True"
| "num_le NegInf PosInf = True"
| "num_le (Fin a) PosInf = True"
| "num_le NegInf NegInf = True"
| "num_le PosInf PosInf = True"
| "num_le _ _ = False"

fun num_add :: "num \<Rightarrow> num \<Rightarrow> num" where
  "num_add (Fin a) (Fin b) = Fin (a + b)"
| "num_add NaN _ = NaN"
| "num_add _ NaN = NaN"
| "num_add NegInf PosInf = NaN"
| "num_add PosInf NegInf = NaN"
| "num_add NegInf _ = NegInf"
| "num_add _ NegInf = NegInf"
| "num_add PosInf _ = PosInf"
| "num_add _ PosInf = PosInf"

definition finite_num :: "num \<Rightarrow> bool" where
  "finite_num x = (case x of Fin _ \<Rightarrow> True | _ \<Rightarrow> False)"

section \<open>create\_bins\<close>

text \<open>
  One entry of \<open>bins_range\<close>: a dictionary in which each key may be absent.
  The bounds and the step are integers; a specification with fractional numbers,
  on which \<open>np.arange\<close> computes in floating point, is outside the model.
\<close>

record bin_range =
  bin_type :: "string option"
  first_bin_max :: "int option"
  last_bin_min :: "int option"
  bin_size :: "int option"
  first_bin_max_hour :: "int option"
  last_bin_min_hour :: "int option"
  bin_size_minutes :: "int option"

text \<open>
  \<open>np.arange(start, stop, step)\<close> on integers: \<open>ceil((stop - start) / step)\<close>
  elements \<open>start + i * step\<close> (none when that is negative); a zero step raises.
  Python's \<open>range(start, stop, step)\<close> has the same elements and raises
  ValueError on a zero step.
\<close>

definition arange_len :: "int \<Rightarrow> int \<Rightarrow> int \<Rightarrow> nat" where
  "arange_len start stop step = nat (- ((start - stop) div step))"

definition arange :: "int \<Rightarrow> int \<Rightarrow> int \<Rightarrow> error + int list" where
  "arange start stop step =
     (if step = 0 then Inl ZeroDivisionError
      else Inr (map (\<lambda>i. start + int i * step) [0..<arange_len start stop step]))"

definition py_range :: "int \<Rightarrow> int \<Rightarrow> int \<Rightarrow> error + int list" where
  "py_range start stop step =
     (if step = 0 then Inl ValueError
      else Inr (map (\<lambda>i. start + int i * step) [0..<arange_len start stop step]))"

text \<open>
  \<open>[h * 100 + m for h in range(fbm, lbm) for m in range(0, 60, bs)]\<close>: the inner
  range is built once per hour, so a zero \<open>bs\<close> raises only when there is an hour.
\<close>

definition time_points :: "int \<Rightarrow> int \<Rightarrow> int \<Rightarrow> error + int list" where
  "time_points fbm lbm bs =
     (if fbm < lbm
      then bindE (py_range 0 60 bs)
             (\<lambda>ms. Inr (concat (map (\<lambda>h. map (\<lambda>m. h * 100 + m) ms) [fbm..lbm - 1])))
      else Inr [])"

text \<open>
  \<open>np.r_[-np.inf, points, np.inf]\<close> is a float64 array: the integer points are
  cast to float64, which rounds an integer of more than 53 bits to the nearest
  one with a 53-bit significand, a tie going to the even significand.
  \<open>bit_length\<close> is Python's \<open>int.bit_length\<close> on a magnitude.
\<close>

function bit_length :: "int \<Rightarrow> nat" where
  "bit_length n = (if n \<le> 0 then 0 else Suc (bit_length (n div 2)))"
  by pat_completeness auto
termination
  by (relation "measure nat") auto

declare bit_length.simps [simp del]

definition to_float64 :: "int \<Rightarrow> int" where
  "to_float64 i =
     (let n = \<bar>i\<bar>; shift = bit_length n - 53
      in if shift = 0 then i
         else (let q = n div 2 ^ shift; r = n mod 2 ^ shift; half = 2 ^ (shift - 1);
                   q' = (if half < r \<or> (r = half \<and> odd q) then q + 1 else q)
               in sgn i * (q' * 2 ^ shift)))"

definition np_r :: "int list \<Rightarrow> num list" where
  "np_r points = NegInf # map (\<lambda>x. Fin (to_float64 x)) points @ [PosInf]"

text \<open>
  The body of the loop of \<open>create_bins\<close> for one entry: the bin table of the
  field, or \<open>None\<close> when the entry has a \<open>bin_type\<close> other than \<open>time\<close>
  (neither branch is taken and the field gets no table).
\<close>

definition bin_edges :: "bin_range \<Rightarrow> error + num list option" where
  "bin_edges br =
     (case bin_type br of
        None \<Rightarrow>
          bindE (getkey (first_bin_max br)) (\<lambda>fbm.
          bindE (getkey (last_bin_min br)) (\<lambda>lbm.
          bindE (getkey (bin_size br)) (\<lambda>bs.
          bindE (arange fbm lbm bs) (\<lambda>mid.
          Inr (Some (np_r mid))))))
      | Some t \<Rightarrow>
          if t = ''time'' then
            bindE (getkey (first_bin_max_hour br)) (\<lambda>fbm.
            bindE (getkey (last_bin_min_hour br)) (\<lambda>lbm.
            bindE (getkey (bin_size_minutes br)) (\<lambda>bs.
            bindE (time_points fbm lbm bs) (\<lambda>mid.
            Inr (Some (np_r mid))))))
          else Inr None)"

text \<open>
  Dictionaries that the code iterates over are association lists in insertion
  order; \<open>bins[f] = t\<close> is \<open>AList.update\<close>, \<open>f in bins\<close> and \<open>bins[f]\<close> are
  \<open>map_of\<close>.
\<close>

type_synonym bins = "(string \<times> num list) list"

fun create_bins_loop :: "bins \<Rightarrow> (string \<times> bin_range) list \<Rightarrow> error + bins" where
  "create_bins_loop bins [] = Inr bins"
| "create_bins_loop bins ((f, br) # rest) =
     (case bin_edges br of
        Inl e \<Rightarrow> Inl e
      | Inr None \<Rightarrow> create_bins_loop bins rest
      | Inr (Some t) \<Rightarrow> create_bins_loop (AList.update f t bins) rest)"

definition create_bins :: "(string \<times> bin_range) list \<Rightarrow> error + bins" where
  "create_bins bins_range = create_bins_loop [] bins_range"

section \<open>Data frames and the schema\<close>

text \<open>
  A data frame is the list of its columns in order, each a label with its cells.
  Column labels are unique and all columns have the same number of cells
  (\<open>wf_frame\<close>); \<open>data[c]\<close> is \<open>map_of\<close>. The row index is not modelled.
  The functions below return the frame that the Python function returns; with
  \<open>copy=False\<close> the caller's frame is that same object, and the value returned
  does not depend on \<open>copy\<close>, so the flag is not a parameter of the model.
\<close>

type_synonym frame = "(string \<times> val list) list"


text \<open>
  A schema descriptor is a dictionary; the code tests which keys it has
  (\<open>"has_null" in desc\<close> looks at the key only, never at its value). The keys
  \<open>values\<close> and \<open>min\<close> are the fields \<open>dvalues\<close> and \<open>dmin\<close>; a field is
  \<open>None\<close> when the key is absent.
\<close>

record descriptor =
  dvalues :: "val list option"
  dmin :: "int option"
  has_null :: "bool option"
  null_value :: "val option"

type_synonym schema = "string \<rightharpoonup> descriptor"

section \<open>discretize\<close>

text \<open>\<open>Series.replace(a, b)\<close>: every cell equal to \<open>a\<close> becomes \<open>b\<close>.\<close>

definition replace :: "val \<Rightarrow> val \<Rightarrow> val list \<Rightarrow> val list" where
  "replace a b xs = map (\<lambda>x. if x = a then b else x) xs"

text \<open>
  \<open>pd.to_numeric\<close>: numbers stay, strings are parsed, and a string that does not
  parse raises ValueError. The parser of pandas is a parameter of the model.
\<close>

definition to_numeric :: "(string \<Rightarrow> num option) \<Rightarrow> val list \<Rightarrow> error + val list" where
  "to_numeric parse xs =
     mapE (\<lambda>x. case x of
                 Num n \<Rightarrow> Inr (Num n)
               | Str s \<Rightarrow> (case parse s of None \<Rightarrow> Inl ValueError | Some n \<Rightarrow> Inr (Num n))) xs"

text \<open>
  \<open>pd.cut(x, bins, right=False).cat.codes\<close>. pandas refuses bin edges that do not
  increase. With \<open>k\<close> the number of edges \<open>\<le> x\<close> (\<open>searchsorted\<close> on the right),
  the code is \<open>k - 1\<close>, the index of the interval \<open>[bins[k-1], bins[k])\<close>; a value
  in no interval (\<open>k = 0\<close>, \<open>k = len(bins)\<close>, or \<open>nan\<close>) has the code \<open>-1\<close>.
  A column with a string cell is not numeric and raises TypeError.
\<close>

definition cut_code :: "num list \<Rightarrow> num \<Rightarrow> int" where
  "cut_code edges x =
     (let k = length (filter (\<lambda>b. num_le b x) edges)
      in if x = NaN \<or> k = 0 \<or> k = length edges then - 1 else int k - 1)"

definition cut_codes :: "val list \<Rightarrow> num list \<Rightarrow> error + val list" where
  "cut_codes xs edges =
     (if \<not> sorted_wrt num_lt edges then Inl ValueError
      else mapE (\<lambda>x. case x of
                        Num n \<Rightarrow> Inr (Num (Fin (cut_code edges n)))
                      | Str s \<Rightarrow> Inl TypeError) xs)"

text \<open>
  \<open>astype(pd.CategoricalDtype(values)).cat.codes\<close>: the categories must be unique
  and not null; a cell gets its position among them, or \<open>-1\<close> when it is none of
  them.
\<close>

definition cat_code :: "val list \<Rightarrow> val \<Rightarrow> int" where
  "cat_code cats x =
     (if x \<in> set cats then int (length (takeWhile (\<lambda>y. y \<noteq> x) cats)) else - 1)"

definition cat_codes :: "val list \<Rightarrow> val list \<Rightarrow> error + val list" where
  "cat_codes cats xs =
     (if \<not> distinct cats \<or> Num NaN \<in> set cats then Inl ValueError
      else Inr (map (\<lambda>x. Num (Fin (cat_code cats x))) xs))"

text \<open>\<open>(column - m).astype(int)\<close>: a non-finite value cannot be cast.\<close>

definition shift_astype_int :: "int \<Rightarrow> val list \<Rightarrow> error + val list" where
  "shift_astype_int m xs =
     mapE (\<lambda>x. case x of
                 Num (Fin i) \<Rightarrow> Inr (Num (Fin (i - m)))
               | Num _ \<Rightarrow> Inl ValueError
               | Str s \<Rightarrow> Inl TypeError) xs"

text \<open>The body of the loop of \<open>discretize\<close> for the column \<open>column\<close>.\<close>

definition discretize_column ::
  "(string \<Rightarrow> num option) \<Rightarrow> schema \<Rightarrow> bins \<Rightarrow> string \<Rightarrow> val list \<Rightarrow> error + val list" where
  "discretize_column parse schema bins column xs =
     (case map_of bins column of
        Some edges \<Rightarrow>
          bindE (case schema column of
                   None \<Rightarrow> Inr xs
                 | Some desc \<Rightarrow>
                     if has_null desc \<noteq> None then
                       bindE (getkey (null_value desc)) (\<lambda>null_val.
                       bindE (getkey (dmin desc)) (\<lambda>m.
                       to_numeric parse (replace null_val (Num (Fin (m - 1))) xs)))
                     else Inr xs)
            (\<lambda>ys. cut_codes ys edges)
      | None \<Rightarrow>
          (case schema column of
             None \<Rightarrow> Inr xs
           | Some desc \<Rightarrow>
               (case dvalues desc of
                  Some vs \<Rightarrow> cat_codes vs xs
                | None \<Rightarrow>
                    (case dmin desc of
                       None \<Rightarrow> Inr xs
                     | Some m \<Rightarrow>
                         bindE (if has_null desc \<noteq> None
                                then bindE (getkey (null_value desc)) (\<lambda>null_val.
                                       Inr (replace null_val (Num (Fin (m - 1))) xs))
                                else Inr xs) (\<lambda>ys.
                         bindE (to_numeric parse ys) (\<lambda>zs.
                         shift_astype_int m zs))))))"

definition discretize ::
  "(string \<Rightarrow> num option) \<Rightarrow> frame \<Rightarrow> schema \<Rightarrow> (string \<times> bin_range) list \<Rightarrow> error + frame" where
  "discretize parse dataset schema bins_range =
     bindE (create_bins bins_range) (\<lambda>bins.
       mapE (\<lambda>(column, xs).
               bindE (discretize_column parse schema bins column xs) (\<lambda>ys. Inr (column, ys)))
            dataset)"

section \<open>undo\_discretize\<close>

text \<open>
  With \<open>handle_inf\<close>, every table gets its last edge replaced:
  \<open>bins[col][-1] = bin[-2] + 1\<close>. A table with fewer than two edges has no
  \<open>bin[-2]\<close> and raises IndexError.
\<close>

definition proxy_last :: "num list \<Rightarrow> error + num list" where
  "proxy_last edges =
     (if length edges < 2 then Inl IndexError
      else Inr (edges[length edges - 1 := num_add (edges ! (length edges - 2)) (Fin 1)]))"

definition handle_inf_bins :: "bins \<Rightarrow> error + bins" where
  "handle_inf_bins bins =
     mapE (\<lambda>(col, edges). bindE (proxy_last edges) (\<lambda>t. Inr (col, t))) bins"

text \<open>
  \<open>arr[codes]\<close> with an array of integer codes, one cell at a time: a negative
  code counts from the end, a code outside \<open>[-len, len)\<close> or a cell that is not
  an integer raises IndexError.
\<close>

definition np_index :: "'a list \<Rightarrow> val \<Rightarrow> error + 'a" where
  "np_index arr c =
     (case c of
        Num (Fin i) \<Rightarrow>
          (let n = int (length arr)
           in if - n \<le> i \<and> i < n then Inr (arr ! nat (if i < 0 then n + i else i))
              else Inl IndexError)
      | _ \<Rightarrow> Inl IndexError)"

text \<open>
  \<open>np.array(values)\<close> has one element type: a list that mixes numbers and strings
  becomes an array of strings, each number replaced by its \<open>str\<close>.
\<close>

fun digits :: "nat \<Rightarrow> string" where
  "digits n = (if n < 10 then [''0123456789'' ! n]
               else digits (n div 10) @ [''0123456789'' ! (n mod 10)])"

declare digits.simps [simp del]

definition py_str :: "num \<Rightarrow> string" where
  "py_str x =
     (case x of
        Fin i \<Rightarrow> (if i < 0 then CHR ''-'' # digits (nat (- i)) else digits (nat i))
      | NegInf \<Rightarrow> ''-inf''
      | PosInf \<Rightarrow> ''inf''
      | NaN \<Rightarrow> ''nan'')"

definition is_str :: "val \<Rightarrow> bool" where
  "is_str v = (case v of Str s \<Rightarrow> True | Num n \<Rightarrow> False)"

definition np_array :: "val list \<Rightarrow> val list" where
  "np_array vs =
     (if list_ex is_str vs
      then map (\<lambda>v. case v of Str s \<Rightarrow> Str s | Num n \<Rightarrow> Str (py_str n)) vs
      else vs)"

text \<open>\<open>column += m\<close>: a string cell cannot be added to a number.\<close>

definition add_min :: "int \<Rightarrow> val list \<Rightarrow> error + val list" where
  "add_min m xs =
     mapE (\<lambda>x. case x of
                 Num n \<Rightarrow> Inr (Num (num_add n (Fin m)))
               | Str s \<Rightarrow> Inl TypeError) xs"

text \<open>The body of the main loop of \<open>undo_discretize\<close> for the column \<open>column\<close>.\<close>

definition undo_column :: "schema \<Rightarrow> bins \<Rightarrow> string \<Rightarrow> val list \<Rightarrow> error + val list" where
  "undo_column schema bins column xs =
     (case map_of bins column of
        Some edges \<Rightarrow> mapE (np_index (map Num edges)) xs
      | None \<Rightarrow>
          (case schema column of
             Some desc \<Rightarrow>
               (case dvalues desc of
                  Some vs \<Rightarrow> mapE (np_index (np_array vs)) xs
                | None \<Rightarrow>
                    (case dmin desc of
                       Some m \<Rightarrow> add_min m xs
                     | None \<Rightarrow> Inl ValueError))
           | None \<Rightarrow> Inr xs))"

definition undo_discretize :: "frame \<Rightarrow> schema \<Rightarrow> bins \<Rightarrow> bool \<Rightarrow> error + frame" where
  "undo_discretize dataset schema bins handle_inf =
     bindE (if handle_inf then handle_inf_bins bins else Inr bins) (\<lambda>bins'.
       mapE (\<lambda>(column, xs).
               bindE (undo_column schema bins' column xs) (\<lambda>ys. Inr (column, ys)))
            dataset)"

section \<open>df\_filter\<close>





section \<open>Example inputs\<close>

text \<open>A continuous specification: ages in steps of five years from 20 to 35.\<close>

definition age_spec :: bin_range where
  "age_spec = \<lparr>bin_type = None, first_bin_max = Some 20, last_bin_min = Some 35, bin_size = Some 5,
     first_bin_max_hour = None, last_bin_min_hour = None, bin_size_minutes = None\<rparr>"

definition age_table :: "num list" where
  "age_table = [NegInf, Fin 20, Fin 25, Fin 30, PosInf]"


text \<open>The time specification of the specification's example, and its table.\<close>

definition hour_spec :: bin_range where
  "hour_spec = \<lparr>bin_type = Some ''time'', first_bin_max = None, last_bin_min = None,
     bin_size = None, first_bin_max_hour = Some 0, last_bin_min_hour = Some 2,
     bin_size_minutes = Some 30\<rparr>"

definition hour_table :: "num list" where
  "hour_table = [NegInf, Fin 0, Fin 30, Fin 100, Fin 130, PosInf]"


text \<open>Schema descriptors: an identifier, an ordinal field with a null sentinel,
  and two categorical fields.\<close>

definition id_desc :: descriptor where
  "id_desc = \<lparr>dvalues = None, dmin = None, has_null = None, null_value = None\<rparr>"

definition age_desc :: descriptor where
  "age_desc = \<lparr>dvalues = None, dmin = Some 0, has_null = Some True,
     null_value = Some (Num (Fin (- 9)))\<rparr>"

definition sex_desc :: descriptor where
  "sex_desc = \<lparr>dvalues = Some [Str ''F'', Str ''M''], dmin = None, has_null = None,
     null_value = None\<rparr>"

definition mixed_desc :: descriptor where
  "mixed_desc = \<lparr>dvalues = Some [Num (Fin 1), Str ''a''], dmin = None, has_null = None,
     null_value = None\<rparr>"


section \<open>Auxiliary facts\<close>

lemma mapE_length: "mapE f xs = Inr ys \<Longrightarrow> length ys = length xs"
  by (induction xs arbitrary: ys) (auto split: sum.splits)

lemma mapE_nth: "mapE f xs = Inr ys \<Longrightarrow> i < length xs \<Longrightarrow> f (xs ! i) = Inr (ys ! i)"
proof (induction xs arbitrary: ys i)
  case Nil
  then show ?case by simp
next
  case (Cons x xs)
  then show ?case by (cases i) (auto split: sum.splits)
qed

lemma mapE_map: "(\<And>x. x \<in> set xs \<Longrightarrow> f x = Inr (g x)) \<Longrightarrow> mapE f xs = Inr (map g xs)"
  by (induction xs) auto

lemma mapE_raises: "x \<in> set xs \<Longrightarrow> f x = Inl e \<Longrightarrow> \<exists>e'. mapE f xs = Inl e'"
  by (induction xs) (auto split: sum.splits)

lemma handle_inf_bins_Inr:
  "list_all (\<lambda>e. 2 \<le> length (snd e)) bins \<Longrightarrow>
   handle_inf_bins bins = Inr (map (\<lambda>(c, e). (c, e[length e - 1 := num_add (e ! (length e - 2)) (Fin 1)])) bins)"
  unfolding handle_inf_bins_def
  by (intro mapE_map) (auto simp: proxy_last_def list_all_iff)

lemma handle_inf_bins_keys:
  "handle_inf_bins bins = Inr bins' \<Longrightarrow> map fst bins' = map fst bins"
  unfolding handle_inf_bins_def
proof (induction bins arbitrary: bins')
  case Nil
  then show ?case by simp
next
  case (Cons p bins)
  then show ?case by (cases p) (auto simp: proxy_last_def split: sum.splits if_splits)
qed

lemma map_of_keys_None: "map fst bs' = map fst bs \<Longrightarrow> map_of bs c = None \<Longrightarrow> map_of bs' c = None"
  by (metis map_of_eq_None_iff set_map)


lemma update_entries: "set (AList.update k v al) \<subseteq> insert (k, v) (set al)"
  by (induction al) auto

lemma create_bins_loop_lengths:
  "create_bins_loop acc brs = Inr bins \<Longrightarrow> list_all (\<lambda>e. 2 \<le> length (snd e)) acc \<Longrightarrow>
   list_all (\<lambda>e. 2 \<le> length (snd e)) bins"
proof (induction brs arbitrary: acc)
  case Nil
  then show ?case by simp
next
  case (Cons p brs)
  obtain g r where p: "p = (g, r)" by (cases p)
  show ?case
  proof (cases "bin_edges r")
    case (Inl e)
    with Cons.prems(1) p show ?thesis by simp
  next
    case (Inr t)
    show ?thesis
    proof (cases t)
      case None
      with Inr Cons.prems p show ?thesis by (auto intro: Cons.IH)
    next
      case (Some e)
      have "2 \<le> length e"
        using Inr Some
        by (auto simp: bin_edges_def getkey_def np_r_def split: option.splits if_splits sum.splits
            elim!: bindE.elims)
      with Cons.prems(2) have "list_all (\<lambda>e. 2 \<le> length (snd e)) (AList.update g e acc)"
        using update_entries[of g e acc] by (auto simp: list_all_iff)
      moreover from Inr Some Cons.prems(1) p
      have "create_bins_loop (AList.update g e acc) brs = Inr bins" by simp
      ultimately show ?thesis by (rule Cons.IH[rotated])
    qed
  qed
qed

lemma create_bins_lengths:
  "create_bins bins_range = Inr bins \<Longrightarrow> list_all (\<lambda>e. 2 \<le> length (snd e)) bins"
  unfolding create_bins_def by (erule create_bins_loop_lengths) simp














lemma bindE_Inr_iff: "bindE m f = Inr y \<longleftrightarrow> (\<exists>x. m = Inr x \<and> f x = Inr y)"
  by (cases m) auto

lemma undo_discretize_nth:
  assumes "undo_discretize dataset schema bins h = Inr result" "i < length dataset"
    "dataset ! i = (c, xs)"
  shows "\<exists>bins' ys. (if h then handle_inf_bins bins else Inr bins) = Inr bins'
      \<and> undo_column schema bins' c xs = Inr ys \<and> result ! i = (c, ys)"
proof -
  from assms(1) obtain bins' where b: "(if h then handle_inf_bins bins else Inr bins) = Inr bins'"
    and m: "mapE (\<lambda>(column, xs). bindE (undo_column schema bins' column xs) (\<lambda>ys. Inr (column, ys)))
              dataset = Inr result"
    unfolding undo_discretize_def bindE_Inr_iff by blast
  from mapE_nth[OF m assms(2)] assms(3)
  have "bindE (undo_column schema bins' c xs) (\<lambda>ys. Inr (c, ys)) = Inr (result ! i)" by simp
  then obtain ys where "undo_column schema bins' c xs = Inr ys" "result ! i = (c, ys)"
    unfolding bindE_Inr_iff by auto
  with b show ?thesis by blast
qed

lemma undo_discretize_one:
  "(if h then handle_inf_bins bins else Inr bins) = Inr bins' \<Longrightarrow>
   undo_discretize [(c, xs)] schema bins h =
     (case undo_column schema bins' c xs of Inl e \<Rightarrow> Inl e | Inr ys \<Rightarrow> Inr [(c, ys)])"
  by (simp add: undo_discretize_def split: sum.splits)

lemma prepared_bins:
  assumes "h \<longrightarrow> list_all (\<lambda>e. 2 \<le> length (snd e)) bins"
  shows "\<exists>bins'. (if h then handle_inf_bins bins else Inr bins) = Inr bins'
           \<and> map fst bins' = map fst bins"
proof (cases h)
  case True
  with assms have "list_all (\<lambda>e. 2 \<le> length (snd e)) bins" by simp
  from handle_inf_bins_Inr[OF this] handle_inf_bins_keys True show ?thesis by auto
next
  case False
  then show ?thesis by simp
qed

lemma prepared_keys:
  "(if h then handle_inf_bins bins else Inr bins) = Inr bins' \<Longrightarrow> map fst bins' = map fst bins"
  by (cases h) (auto dest: handle_inf_bins_keys)


lemma discretize_one:
  "create_bins bins_range = Inr bins \<Longrightarrow>
   discretize parse [(c, xs)] schema bins_range =
     (case discretize_column parse schema bins c xs of Inl e \<Rightarrow> Inl e | Inr ys \<Rightarrow> Inr [(c, ys)])"
  by (simp add: discretize_def split: sum.splits)

lemma undo_after_create_bins:
  assumes "create_bins bins_range = Inr bins"
  shows "\<exists>bins'. (if h then handle_inf_bins bins else Inr bins) = Inr bins'
           \<and> map fst bins' = map fst bins"
  using prepared_bins[of h bins] create_bins_lengths[OF assms] by simp

lemma np_array_uniform: "list_all is_str vs \<or> \<not> list_ex is_str vs \<Longrightarrow> np_array vs = vs"
  by (auto simp: np_array_def list_all_iff list_ex_iff is_str_def map_idI split: val.splits)

lemma first_position:
  "x \<in> set cats \<Longrightarrow> length (takeWhile (\<lambda>y. y \<noteq> x) cats) < length cats
     \<and> cats ! length (takeWhile (\<lambda>y. y \<noteq> x) cats) = x"
  by (induction cats) auto

lemma cat_code_member:
  assumes "x \<in> set cats"
  shows "0 \<le> cat_code cats x \<and> cat_code cats x < int (length cats)
       \<and> cats ! nat (cat_code cats x) = x"
  using first_position[OF assms] assms by (simp add: cat_code_def)

lemma mapE_map_map:
  "(\<And>x. x \<in> set xs \<Longrightarrow> f (g x) = Inr (h x)) \<Longrightarrow> mapE f (map g xs) = Inr (map h xs)"
  by (induction xs) auto
















section \<open>C1: a column known to neither the bin table nor the schema\<close>

text \<open>
  C1, as amended. A column of the coded table that is absent from both the bin
  table and the schema is left as it is by \<open>undo_discretize\<close>, which raises
  nothing for it: the frame of that column alone is returned unchanged, and
  whenever \<open>undo_discretize\<close> returns on a frame containing the column, the column
  of the result is the column of the input. (With \<open>handle_inf\<close> every bin table
  must have the two edges that the replacement of the last edge reads.)
\<close>

theorem undo_unknown_column_unchanged:
  assumes nobin: "map_of bins column = None" and noschema: "schema column = None"
    and tables: "handle_inf \<longrightarrow> list_all (\<lambda>e. 2 \<le> length (snd e)) bins"
    and col: "i < length dataset" "dataset ! i = (column, xs)"
  shows "undo_discretize [(column, xs)] schema bins handle_inf = Inr [(column, xs)]
    \<and> (\<forall>result. undo_discretize dataset schema bins handle_inf = Inr result
          \<longrightarrow> result ! i = (column, xs))"
proof -
  have same: "undo_column schema bins' column xs = Inr xs"
    if "map fst bins' = map fst bins" for bins'
    using map_of_keys_None[OF that nobin] noschema by (simp add: undo_column_def)
  from prepared_bins[OF tables] obtain bins' where
    b: "(if handle_inf then handle_inf_bins bins else Inr bins) = Inr bins'"
    and k: "map fst bins' = map fst bins" by blast
  have 1: "undo_discretize [(column, xs)] schema bins handle_inf = Inr [(column, xs)]"
    by (simp add: undo_discretize_one[OF b] same[OF k])
  have 2: "result ! i = (column, xs)"
    if r: "undo_discretize dataset schema bins handle_inf = Inr result" for result
  proof -
    from undo_discretize_nth[OF r col] obtain bins'' ys where
      "(if handle_inf then handle_inf_bins bins else Inr bins) = Inr bins''"
      "undo_column schema bins'' column xs = Inr ys" "result ! i = (column, ys)" by blast
    with same[OF prepared_keys] show ?thesis by fastforce
  qed
  from 1 2 show ?thesis by blast
qed

theorem undo_unknown_column_unchanged_witness:
  "map_of [(''hour'', hour_table)] ''id'' = None \<and> (Map.empty :: schema) ''id'' = None
   \<and> list_all (\<lambda>e. 2 \<le> length (snd e)) [(''hour'', hour_table)]
   \<and> undo_discretize [(''id'', [Str ''x17''])] Map.empty [(''hour'', hour_table)] True
       = Inr [(''id'', [Str ''x17''])]
   \<and> undo_discretize [(''hour'', [Num (Fin 2)]), (''id'', [Str ''x17''])] Map.empty
        [(''hour'', hour_table)] True
       = Inr [(''hour'', [Num (Fin 30)]), (''id'', [Str ''x17''])]"
proof -
  have h: "map_of [(''hour'', hour_table)] ''id'' = None" "(Map.empty :: schema) ''id'' = None"
    "True \<longrightarrow> list_all (\<lambda>e. 2 \<le> length (snd e)) [(''hour'', hour_table)]"
    "1 < length [(''hour'', [Num (Fin 2)]), (''id'', [Str ''x17''])]"
    "[(''hour'', [Num (Fin 2)]), (''id'', [Str ''x17''])] ! 1 = (''id'', [Str ''x17''])"
    by (simp_all add: hour_table_def)
  have r: "undo_discretize [(''hour'', [Num (Fin 2)]), (''id'', [Str ''x17''])] Map.empty
        [(''hour'', hour_table)] True
       = Inr [(''hour'', [Num (Fin 30)]), (''id'', [Str ''x17''])]"
    by code_simp
  from undo_unknown_column_unchanged[where schema = "Map.empty"
      and bins = "[(''hour'', hour_table)]" and column = "''id''"
      and xs = "[Str ''x17'']" and handle_inf = True and i = 1
      and dataset = "[(''hour'', [Num (Fin 2)]), (''id'', [Str ''x17''])]", OF h] h r
  show ?thesis by simp
qed

text \<open>
  The claim as stated, that decoding such a column raises, fails: the frame with
  the one unknown column \<open>id\<close> is returned.
\<close>

theorem undo_unknown_column_returns:
  "undo_discretize [(''id'', [Str ''x17''])] Map.empty [] True = Inr [(''id'', [Str ''x17''])]"
  by code_simp

section \<open>C2: the null sentinel of an ordinal field\<close>

text \<open>
  C2, as amended. For an ordinal-numeric field with a declared null sentinel
  (a descriptor with \<open>min\<close>, \<open>has_null\<close> and \<open>null_value\<close>, no \<open>values\<close>) and no
  bin entry, the null sentinel encodes to \<open>-1\<close> and \<open>-1\<close> decodes to \<open>min - 1\<close>:
  \<open>decode(encode(null_value)) = min - 1\<close>, which is the sentinel only when the
  sentinel is \<open>min - 1\<close>.
\<close>

theorem ordinal_null_decodes_to_min_minus_one:
  assumes bins: "create_bins bins_range = Inr bins" and nobin: "map_of bins column = None"
    and desc: "schema column = Some desc" "dvalues desc = None" "dmin desc = Some m"
      "has_null desc = Some flag" "null_value desc = Some nv"
  shows "discretize parse [(column, [nv])] schema bins_range = Inr [(column, [Num (Fin (- 1))])]
    \<and> undo_discretize [(column, [Num (Fin (- 1))])] schema bins handle_inf
        = Inr [(column, [Num (Fin (m - 1))])]"
proof -
  have "discretize_column parse schema bins column [nv] = Inr [Num (Fin (- 1))]"
    using nobin desc
    by (simp add: discretize_column_def getkey_def replace_def to_numeric_def shift_astype_int_def)
  then have 1: "discretize parse [(column, [nv])] schema bins_range
      = Inr [(column, [Num (Fin (- 1))])]"
    by (simp add: discretize_one[OF bins])
  from undo_after_create_bins[OF bins] obtain bins' where
    b: "(if handle_inf then handle_inf_bins bins else Inr bins) = Inr bins'"
    and k: "map fst bins' = map fst bins" by blast
  have "undo_column schema bins' column [Num (Fin (- 1))] = Inr [Num (Fin (m - 1))]"
    using map_of_keys_None[OF k nobin] desc by (simp add: undo_column_def add_min_def)
  then have 2: "undo_discretize [(column, [Num (Fin (- 1))])] schema bins handle_inf
        = Inr [(column, [Num (Fin (m - 1))])]"
    by (simp add: undo_discretize_one[OF b])
  from 1 2 show ?thesis by blast
qed

theorem ordinal_null_decodes_to_min_minus_one_witness:
  "create_bins [] = Inr [] \<and> map_of ([] :: bins) ''age'' = None
   \<and> [''age'' \<mapsto> age_desc] ''age'' = Some age_desc
   \<and> dvalues age_desc = None \<and> dmin age_desc = Some 0 \<and> has_null age_desc = Some True
   \<and> null_value age_desc = Some (Num (Fin (- 9)))
   \<and> discretize (\<lambda>s. None) [(''age'', [Num (Fin (- 9))])] [''age'' \<mapsto> age_desc] []
       = Inr [(''age'', [Num (Fin (- 1))])]
   \<and> undo_discretize [(''age'', [Num (Fin (- 1))])] [''age'' \<mapsto> age_desc] [] True
       = Inr [(''age'', [Num (Fin (0 - 1))])]"
proof -
  have h: "create_bins [] = Inr []" "map_of ([] :: bins) ''age'' = None"
    "[''age'' \<mapsto> age_desc] ''age'' = Some age_desc"
    "dvalues age_desc = None" "dmin age_desc = Some 0" "has_null age_desc = Some True"
    "null_value age_desc = Some (Num (Fin (- 9)))"
    by (simp_all add: create_bins_def age_desc_def)
  from ordinal_null_decodes_to_min_minus_one[where schema = "[''age'' \<mapsto> age_desc]"
      and parse = "\<lambda>s. None" and handle_inf = True, OF h] h
  show ?thesis by simp
qed

text \<open>
  The claim as stated, \<open>decode(encode(null_value)) = null_value\<close>, fails on the
  specification's own example: with \<open>min = 0\<close> and the sentinel \<open>-9\<close>, the
  sentinel encodes to \<open>-1\<close> and \<open>-1\<close> decodes to \<open>-1\<close>.
\<close>

theorem ordinal_null_not_restored:
  "discretize (\<lambda>s. None) [(''age'', [Num (Fin (- 9))])] [''age'' \<mapsto> age_desc] []
       = Inr [(''age'', [Num (Fin (- 1))])]
   \<and> undo_discretize [(''age'', [Num (Fin (- 1))])] [''age'' \<mapsto> age_desc] [] True
       = Inr [(''age'', [Num (Fin (- 1))])]
   \<and> undo_discretize [(''age'', [Num (Fin (- 1))])] [''age'' \<mapsto> age_desc] [] True
       \<noteq> Inr [(''age'', [Num (Fin (- 9))])]"
  by code_simp

section \<open>C3: a value outside the declared categories\<close>

text \<open>
  C3, as amended. For a categorical field (its declared values unique and not
  null, as pandas requires of categories) and a raw value that is not one of the
  declared values, \<open>discretize\<close> gives the code \<open>-1\<close>; decoding \<open>-1\<close> indexes the
  array of the values from its end and yields its last element (IndexError when
  there are no values). When the values are all strings or all numbers that is
  the last declared value, so the result is an element of the values sequence.
\<close>

theorem unmapped_category_decodes_to_last:
  assumes bins: "create_bins bins_range = Inr bins" and nobin: "map_of bins column = None"
    and desc: "schema column = Some desc" "dvalues desc = Some vs"
    and cats: "distinct vs" "Num NaN \<notin> set vs"
    and unmapped: "v \<notin> set vs"
  shows "discretize parse [(column, [v])] schema bins_range = Inr [(column, [Num (Fin (- 1))])]
    \<and> undo_discretize [(column, [Num (Fin (- 1))])] schema bins handle_inf
        = (if vs = [] then Inl IndexError else Inr [(column, [last (np_array vs)])])
    \<and> (vs \<noteq> [] \<and> (list_all is_str vs \<or> \<not> list_ex is_str vs)
        \<longrightarrow> last (np_array vs) = last vs \<and> last vs \<in> set vs)"
proof -
  have "discretize_column parse schema bins column [v] = Inr [Num (Fin (- 1))]"
    using nobin desc cats unmapped
    by (simp add: discretize_column_def cat_codes_def cat_code_def)
  then have 1: "discretize parse [(column, [v])] schema bins_range
      = Inr [(column, [Num (Fin (- 1))])]"
    by (simp add: discretize_one[OF bins])
  from undo_after_create_bins[OF bins] obtain bins' where
    b: "(if handle_inf then handle_inf_bins bins else Inr bins) = Inr bins'"
    and k: "map fst bins' = map fst bins" by blast
  have len: "length (np_array vs) = length vs" by (simp add: np_array_def)
  have ix: "np_index (np_array vs) (Num (Fin (- 1)))
      = (if vs = [] then Inl IndexError else Inr (last (np_array vs)))"
  proof (cases "vs = []")
    case True
    then show ?thesis by (simp add: np_index_def np_array_def)
  next
    case False
    then have ne: "np_array vs \<noteq> []" using len by auto
    then have "np_array vs ! (length vs - Suc 0) = last (np_array vs)"
      using len by (simp add: last_conv_nth)
    moreover have "Suc 0 \<le> length vs" using False by (cases vs) simp_all
    ultimately show ?thesis using False len
      by (simp add: np_index_def nat_diff_distrib')
  qed
  have "undo_column schema bins' column [Num (Fin (- 1))]
      = (if vs = [] then Inl IndexError else Inr [last (np_array vs)])"
    using map_of_keys_None[OF k nobin] desc ix by (simp add: undo_column_def)
  then have 2: "undo_discretize [(column, [Num (Fin (- 1))])] schema bins handle_inf
        = (if vs = [] then Inl IndexError else Inr [(column, [last (np_array vs)])])"
    by (simp add: undo_discretize_one[OF b])
  have 3: "last (np_array vs) = last vs \<and> last vs \<in> set vs"
    if "vs \<noteq> [] \<and> (list_all is_str vs \<or> \<not> list_ex is_str vs)"
    using that np_array_uniform[of vs] by simp
  from 1 2 3 show ?thesis by blast
qed

theorem unmapped_category_decodes_to_last_witness:
  "create_bins [] = Inr [] \<and> map_of ([] :: bins) ''SEX'' = None
   \<and> [''SEX'' \<mapsto> sex_desc] ''SEX'' = Some sex_desc
   \<and> dvalues sex_desc = Some [Str ''F'', Str ''M'']
   \<and> distinct [Str ''F'', Str ''M''] \<and> Num NaN \<notin> set [Str ''F'', Str ''M'']
   \<and> Str ''X'' \<notin> set [Str ''F'', Str ''M'']
   \<and> discretize (\<lambda>s. None) [(''SEX'', [Str ''X''])] [''SEX'' \<mapsto> sex_desc] []
       = Inr [(''SEX'', [Num (Fin (- 1))])]
   \<and> undo_discretize [(''SEX'', [Num (Fin (- 1))])] [''SEX'' \<mapsto> sex_desc] [] True
       = Inr [(''SEX'', [Str ''M''])]"
proof -
  have h: "create_bins [] = Inr []" "map_of ([] :: bins) ''SEX'' = None"
    "[''SEX'' \<mapsto> sex_desc] ''SEX'' = Some sex_desc"
    "dvalues sex_desc = Some [Str ''F'', Str ''M'']"
    "distinct [Str ''F'', Str ''M'']" "Num NaN \<notin> set [Str ''F'', Str ''M'']"
    "Str ''X'' \<notin> set [Str ''F'', Str ''M'']"
    by (simp_all add: create_bins_def sex_desc_def)
  have a: "np_array [Str ''F'', Str ''M''] = [Str ''F'', Str ''M'']"
    by (simp add: np_array_def is_str_def)
  from unmapped_category_decodes_to_last[where schema = "[''SEX'' \<mapsto> sex_desc]"
      and parse = "\<lambda>s. None" and handle_inf = True, OF h] h a
  show ?thesis by simp
qed

text \<open>
  The claim as stated, that decoding \<open>-1\<close> never yields a declared value, fails:
  with the values \<open>F, M\<close> the unmapped \<open>X\<close> comes back as \<open>M\<close>.
\<close>

theorem unmapped_category_yields_declared_value:
  "discretize (\<lambda>s. None) [(''SEX'', [Str ''X''])] [''SEX'' \<mapsto> sex_desc] []
       = Inr [(''SEX'', [Num (Fin (- 1))])]
   \<and> undo_discretize [(''SEX'', [Num (Fin (- 1))])] [''SEX'' \<mapsto> sex_desc] [] True
       = Inr [(''SEX'', [Str ''M''])]
   \<and> dvalues sex_desc = Some [Str ''F'', Str ''M'']
   \<and> Str ''M'' \<in> set [Str ''F'', Str ''M'']"
  by code_simp

section \<open>C4: a schema descriptor with neither values nor min\<close>

text \<open>
  C4, as amended. A column that has no bin table and whose schema descriptor has
  neither \<open>values\<close> nor \<open>min\<close> makes \<open>undo_discretize\<close> raise: it never returns
  on a frame containing such a column, and on the frame of that column alone the
  error is the ValueError of the \<open>else\<close> branch.
\<close>

theorem undo_passthrough_descriptor_raises:
  assumes nobin: "map_of bins column = None" and desc: "schema column = Some desc"
    and shape: "dvalues desc = None" "dmin desc = None"
    and col: "(column, xs) \<in> set dataset"
  shows "(\<exists>e. undo_discretize dataset schema bins handle_inf = Inl e)
    \<and> ((handle_inf \<longrightarrow> list_all (\<lambda>e. 2 \<le> length (snd e)) bins)
        \<longrightarrow> undo_discretize [(column, xs)] schema bins handle_inf = Inl ValueError)"
proof -
  have raise: "undo_column schema bins' column xs = Inl ValueError"
    if "map fst bins' = map fst bins" for bins'
    using map_of_keys_None[OF that nobin] desc shape by (simp add: undo_column_def)
  have 1: "\<exists>e. undo_discretize dataset schema bins handle_inf = Inl e"
  proof (cases "if handle_inf then handle_inf_bins bins else Inr bins")
    case (Inl e)
    then show ?thesis by (simp add: undo_discretize_def)
  next
    case (Inr bins')
    let ?f = "\<lambda>(column, xs). bindE (undo_column schema bins' column xs) (\<lambda>ys. Inr (column, ys))"
    have "?f (column, xs) = Inl ValueError" using raise[OF prepared_keys[OF Inr]] by simp
    from mapE_raises[where f = ?f, OF col this] Inr show ?thesis
      by (auto simp: undo_discretize_def)
  qed
  have 2: "undo_discretize [(column, xs)] schema bins handle_inf = Inl ValueError"
    if "handle_inf \<longrightarrow> list_all (\<lambda>e. 2 \<le> length (snd e)) bins"
  proof -
    from prepared_bins[OF that] obtain bins' where
      b: "(if handle_inf then handle_inf_bins bins else Inr bins) = Inr bins'"
      and k: "map fst bins' = map fst bins" by blast
    show ?thesis by (simp add: undo_discretize_one[OF b] raise[OF k])
  qed
  from 1 2 show ?thesis by blast
qed

theorem undo_passthrough_descriptor_raises_witness:
  "map_of [(''hour'', hour_table)] ''id'' = None \<and> [''id'' \<mapsto> id_desc] ''id'' = Some id_desc
   \<and> dvalues id_desc = None \<and> dmin id_desc = None
   \<and> (''id'', [Str ''x17'']) \<in> set [(''hour'', [Num (Fin 2)]), (''id'', [Str ''x17''])]
   \<and> list_all (\<lambda>e. 2 \<le> length (snd e)) [(''hour'', hour_table)]
   \<and> (\<exists>e. undo_discretize [(''hour'', [Num (Fin 2)]), (''id'', [Str ''x17''])]
             [''id'' \<mapsto> id_desc] [(''hour'', hour_table)] True = Inl e)
   \<and> undo_discretize [(''id'', [Str ''x17''])] [''id'' \<mapsto> id_desc] [(''hour'', hour_table)] True
       = Inl ValueError"
proof -
  have h: "map_of [(''hour'', hour_table)] ''id'' = None" "[''id'' \<mapsto> id_desc] ''id'' = Some id_desc"
    "dvalues id_desc = None" "dmin id_desc = None"
    "(''id'', [Str ''x17'']) \<in> set [(''hour'', [Num (Fin 2)]), (''id'', [Str ''x17''])]"
    by (simp_all add: id_desc_def)
  have t: "list_all (\<lambda>e. 2 \<le> length (snd e)) [(''hour'', hour_table)]"
    by (simp add: hour_table_def)
  from undo_passthrough_descriptor_raises[where schema = "[''id'' \<mapsto> id_desc]"
      and bins = "[(''hour'', hour_table)]" and column = "''id''" and desc = id_desc
      and xs = "[Str ''x17'']" and handle_inf = True
      and dataset = "[(''hour'', [Num (Fin 2)]), (''id'', [Str ''x17''])]", OF h] h t
  show ?thesis by simp
qed

text \<open>
  The claim as stated, that such a column is left unchanged and the call returns,
  fails on the identifier column \<open>id\<close>.
\<close>

theorem undo_passthrough_descriptor_not_unchanged:
  "undo_discretize [(''id'', [Str ''x17''])] [''id'' \<mapsto> id_desc] [] True = Inl ValueError"
  by code_simp

section \<open>C5: the time-of-day example\<close>

text \<open>
  C5, as amended. For the time specification \<open>{bin_type: time,
  first_bin_max_hour: 0, last_bin_min_hour: 2, bin_size_minutes: 30}\<close>,
  \<open>create_bins\<close> yields the table \<open>[-inf, 0, 30, 100, 130, +inf]\<close>; the raw value 45
  has the code 2, the index of the bin \<open>[30, 100)\<close> (the bin of index 0 is
  \<open>[-inf, 0)\<close>); the code 2 decodes to 30 and the code 1 to 0, each the lower edge
  of its bin.
\<close>

theorem hour_example:
  "create_bins [(''hour'', hour_spec)] = Inr [(''hour'', hour_table)]
   \<and> hour_table = [NegInf, Fin 0, Fin 30, Fin 100, Fin 130, PosInf]
   \<and> discretize parse [(''hour'', [Num (Fin 45)])] Map.empty [(''hour'', hour_spec)]
       = Inr [(''hour'', [Num (Fin 2)])]
   \<and> undo_discretize [(''hour'', [Num (Fin 2)])] Map.empty [(''hour'', hour_table)] handle_inf
       = Inr [(''hour'', [Num (Fin 30)])]
   \<and> undo_discretize [(''hour'', [Num (Fin 1)])] Map.empty [(''hour'', hour_table)] handle_inf
       = Inr [(''hour'', [Num (Fin 0)])]"
proof -
  have c: "create_bins [(''hour'', hour_spec)] = Inr [(''hour'', hour_table)]"
    by code_simp
  have d: "discretize parse [(''hour'', [Num (Fin 45)])] Map.empty [(''hour'', hour_spec)]
       = Inr [(''hour'', [Num (Fin 2)])]"
    by (simp add: discretize_def c discretize_column_def cut_codes_def cut_code_def hour_table_def)
  have u2: "undo_discretize [(''hour'', [Num (Fin 2)])] Map.empty [(''hour'', hour_table)] handle_inf
       = Inr [(''hour'', [Num (Fin 30)])]"
    by (cases handle_inf)
      (simp_all add: undo_discretize_def handle_inf_bins_def proxy_last_def undo_column_def
        np_index_def hour_table_def)
  have u1: "undo_discretize [(''hour'', [Num (Fin 1)])] Map.empty [(''hour'', hour_table)] handle_inf
       = Inr [(''hour'', [Num (Fin 0)])]"
    by (cases handle_inf)
      (simp_all add: undo_discretize_def handle_inf_bins_def proxy_last_def undo_column_def
        np_index_def hour_table_def)
  from c d u2 u1 show ?thesis by (simp add: hour_table_def)
qed

text \<open>
  The example as stated fails: the code of 45 is 2, not 1, and the code 0 decodes
  to \<open>-inf\<close>, not to 0.
\<close>

theorem hour_example_as_stated:
  "discretize (\<lambda>s. None) [(''hour'', [Num (Fin 45)])] Map.empty [(''hour'', hour_spec)]
       = Inr [(''hour'', [Num (Fin 2)])]
   \<and> discretize (\<lambda>s. None) [(''hour'', [Num (Fin 45)])] Map.empty [(''hour'', hour_spec)]
       \<noteq> Inr [(''hour'', [Num (Fin 1)])]
   \<and> undo_discretize [(''hour'', [Num (Fin 0)])] Map.empty [(''hour'', hour_table)] True
       = Inr [(''hour'', [Num NegInf])]
   \<and> undo_discretize [(''hour'', [Num (Fin 0)])] Map.empty [(''hour'', hour_table)] True
       \<noteq> Inr [(''hour'', [Num (Fin 0)])]"
  by code_simp

section \<open>C6: handle\_inf and the first bin\<close>

text \<open>
  C6. The claim is that with \<open>handle_inf\<close> every code that \<open>discretize\<close> produces
  decodes to a finite value. The code replaces the last edge only: an age of 7,
  below the first finite edge 20, has the code 0, and the code 0 decodes to the
  first edge, \<open>-inf\<close>.
\<close>

theorem handle_inf_keeps_neg_inf:
  "create_bins [(''AGE'', age_spec)] = Inr [(''AGE'', age_table)]
   \<and> discretize parse [(''AGE'', [Num (Fin 7)])] Map.empty [(''AGE'', age_spec)]
       = Inr [(''AGE'', [Num (Fin 0)])]
   \<and> undo_discretize [(''AGE'', [Num (Fin 0)])] Map.empty [(''AGE'', age_table)] True
       = Inr [(''AGE'', [Num NegInf])]
   \<and> \<not> finite_num NegInf"
proof -
  have c: "create_bins [(''AGE'', age_spec)] = Inr [(''AGE'', age_table)]"
    by code_simp
  have d: "discretize parse [(''AGE'', [Num (Fin 7)])] Map.empty [(''AGE'', age_spec)]
       = Inr [(''AGE'', [Num (Fin 0)])]"
    by (simp add: discretize_def c discretize_column_def cut_codes_def cut_code_def age_table_def)
  have u: "undo_discretize [(''AGE'', [Num (Fin 0)])] Map.empty [(''AGE'', age_table)] True
       = Inr [(''AGE'', [Num NegInf])]"
    by code_simp
  have f: "\<not> finite_num NegInf" by (simp add: finite_num_def)
  from c d u f show ?thesis by blast
qed

section \<open>C7: the bin table of a continuous specification\<close>




section \<open>C8: the round trip of a categorical field\<close>

text \<open>
  C8, as amended. For a categorical field with no bin entry whose declared
  values are unique, not null, and all strings or all numbers, a column of
  declared values encodes to the positions of its cells and decodes to itself:
  \<open>decode(encode(v)) = v\<close> for every declared \<open>v\<close>.
\<close>

theorem categorical_round_trip:
  assumes bins: "create_bins bins_range = Inr bins" and nobin: "map_of bins column = None"
    and desc: "schema column = Some desc" "dvalues desc = Some vs"
    and cats: "distinct vs" "Num NaN \<notin> set vs"
    and uniform: "list_all is_str vs \<or> \<not> list_ex is_str vs"
    and members: "set xs \<subseteq> set vs"
  shows "\<exists>codes. discretize parse [(column, xs)] schema bins_range = Inr [(column, codes)]
      \<and> codes = map (\<lambda>x. Num (Fin (cat_code vs x))) xs
      \<and> undo_discretize [(column, codes)] schema bins handle_inf = Inr [(column, xs)]"
proof -
  let ?codes = "map (\<lambda>x. Num (Fin (cat_code vs x))) xs"
  have "discretize_column parse schema bins column xs = Inr ?codes"
    using nobin desc cats by (simp add: discretize_column_def cat_codes_def)
  then have 1: "discretize parse [(column, xs)] schema bins_range = Inr [(column, ?codes)]"
    by (simp add: discretize_one[OF bins])
  from undo_after_create_bins[OF bins] obtain bins' where
    b: "(if handle_inf then handle_inf_bins bins else Inr bins) = Inr bins'"
    and k: "map fst bins' = map fst bins" by blast
  have "np_index vs (Num (Fin (cat_code vs x))) = Inr x" if "x \<in> set xs" for x
  proof -
    from that members have "x \<in> set vs" by auto
    from cat_code_member[OF this] show ?thesis by (simp add: np_index_def)
  qed
  then have "mapE (np_index vs) ?codes = Inr (map (\<lambda>x. x) xs)"
    by (rule mapE_map_map)
  then have "undo_column schema bins' column ?codes = Inr xs"
    using map_of_keys_None[OF k nobin] desc np_array_uniform[OF uniform]
    by (simp add: undo_column_def)
  then have 2: "undo_discretize [(column, ?codes)] schema bins handle_inf = Inr [(column, xs)]"
    by (simp add: undo_discretize_one[OF b])
  from 1 2 show ?thesis by blast
qed

theorem categorical_round_trip_witness:
  "create_bins [] = Inr [] \<and> map_of ([] :: bins) ''SEX'' = None
   \<and> [''SEX'' \<mapsto> sex_desc] ''SEX'' = Some sex_desc
   \<and> dvalues sex_desc = Some [Str ''F'', Str ''M'']
   \<and> distinct [Str ''F'', Str ''M''] \<and> Num NaN \<notin> set [Str ''F'', Str ''M'']
   \<and> list_all is_str [Str ''F'', Str ''M'']
   \<and> set [Str ''M'', Str ''F'', Str ''M''] \<subseteq> set [Str ''F'', Str ''M'']
   \<and> discretize (\<lambda>s. None) [(''SEX'', [Str ''M'', Str ''F'', Str ''M''])] [''SEX'' \<mapsto> sex_desc] []
       = Inr [(''SEX'', [Num (Fin 1), Num (Fin 0), Num (Fin 1)])]
   \<and> undo_discretize [(''SEX'', [Num (Fin 1), Num (Fin 0), Num (Fin 1)])] [''SEX'' \<mapsto> sex_desc]
        [] True
       = Inr [(''SEX'', [Str ''M'', Str ''F'', Str ''M''])]"
proof -
  have h: "create_bins [] = Inr []" "map_of ([] :: bins) ''SEX'' = None"
    "[''SEX'' \<mapsto> sex_desc] ''SEX'' = Some sex_desc"
    "dvalues sex_desc = Some [Str ''F'', Str ''M'']"
    "distinct [Str ''F'', Str ''M'']" "Num NaN \<notin> set [Str ''F'', Str ''M'']"
    "list_all is_str [Str ''F'', Str ''M''] \<or> \<not> list_ex is_str [Str ''F'', Str ''M'']"
    "set [Str ''M'', Str ''F'', Str ''M''] \<subseteq> set [Str ''F'', Str ''M'']"
    by (simp_all add: create_bins_def sex_desc_def is_str_def)
  have c: "map (\<lambda>x. Num (Fin (cat_code [Str ''F'', Str ''M''] x))) [Str ''M'', Str ''F'', Str ''M'']
      = [Num (Fin 1), Num (Fin 0), Num (Fin 1)]"
    by (simp add: cat_code_def)
  have s: "list_all is_str [Str ''F'', Str ''M'']" by (simp add: is_str_def)
  from categorical_round_trip[where schema = "[''SEX'' \<mapsto> sex_desc]"
      and parse = "\<lambda>s. None" and handle_inf = True, OF h] h(1-6,8) s c
  show ?thesis by simp
qed

text \<open>
  The claim as stated, for every values sequence, fails when the sequence mixes
  numbers and strings: \<open>np.array([1, 'a'])\<close> is an array of strings, and the
  number 1 comes back as the string \<open>'1'\<close>.
\<close>

theorem categorical_round_trip_mixed_values:
  "dvalues mixed_desc = Some [Num (Fin 1), Str ''a'']
   \<and> discretize (\<lambda>s. None) [(''code'', [Num (Fin 1)])] [''code'' \<mapsto> mixed_desc] []
       = Inr [(''code'', [Num (Fin 0)])]
   \<and> undo_discretize [(''code'', [Num (Fin 0)])] [''code'' \<mapsto> mixed_desc] [] True
       = Inr [(''code'', [Str ''1''])]
   \<and> undo_discretize [(''code'', [Num (Fin 0)])] [''code'' \<mapsto> mixed_desc] [] True
       \<noteq> Inr [(''code'', [Num (Fin 1)])]"
  by code_simp

section \<open>C9: df\_filter\<close>



section \<open>C10: decoding the code -1 of a binned column\<close>




end
